theory Spec2Isabelle
  imports Complex_Main "HOL-Library.Sublist"
begin

section \<open>JavaScript string helpers\<close>

text \<open>
  Strings are lists of characters. The helpers below follow the JavaScript string
  methods the dashboard calls; case mapping is given for the ASCII letters, which is
  all the category names and status words of the schema contain.
\<close>

definition is_js_space :: "char \<Rightarrow> bool" where
  \<comment> \<open>White space stripped by \<open>String.prototype.trim\<close>: TAB, LF, VT, FF, CR, SPACE, NBSP.\<close>
  "is_js_space c = (c \<in> set [CHR 0x09, CHR 0x0A, CHR 0x0B, CHR 0x0C, CHR 0x0D, CHR 0x20, CHR 0xA0])"

definition trim :: "string \<Rightarrow> string" where
  "trim s = rev (dropWhile is_js_space (rev (dropWhile is_js_space s)))"

definition lower_char :: "char \<Rightarrow> char" where
  "lower_char c = (let n = (of_char c :: nat) in if 65 \<le> n \<and> n \<le> 90 then char_of (n + 32) else c)"

definition upper_char :: "char \<Rightarrow> char" where
  "upper_char c = (let n = (of_char c :: nat) in if 97 \<le> n \<and> n \<le> 122 then char_of (n - 32) else c)"

definition toLowerCase :: "string \<Rightarrow> string" where
  "toLowerCase s = map lower_char s"

fun includes_str :: "string \<Rightarrow> string \<Rightarrow> bool" where
  "includes_str [] q = (q = [])"
| "includes_str (c # cs) q = (prefix q (c # cs) \<or> includes_str cs q)"

definition capitalize :: "string \<Rightarrow> string" where
  \<comment> \<open>\<open>s.charAt(0).toUpperCase() + s.slice(1)\<close>; \<open>charAt(0)\<close> of the empty string is empty.\<close>
  "capitalize s = (case s of [] \<Rightarrow> [] | c # cs \<Rightarrow> upper_char c # cs)"

section \<open>Data model: the three tables of the schema\<close>

type_synonym uuid = string
type_synonym timestamptz = int  \<comment> \<open>milliseconds since the epoch\<close>

text \<open>
  One record per table of \<open>schema.sql\<close>, one field per column, with the columns the
  migration adds to \<open>issue_groups\<close>. Every write of the dashboard supplies a value or
  leaves the column default, so rows hold values, not NULL.
\<close>

record message_row =
  m_id :: uuid
  m_slack_message_id :: string
  m_user_id :: string
  m_user_name :: string
  m_channel_id :: string
  m_channel_name :: string
  m_text :: string
  m_thread_ts :: "string option"
  m_timestamp :: timestamptz
  m_is_relevant :: bool
  m_category :: string
  m_confidence :: real
  m_summary :: string
  m_embedding :: "real list option"
  m_created_at :: timestamptz

record issue_group =
  g_id :: uuid
  g_title :: string
  g_summary :: string
  g_category :: string
  g_priority :: string
  g_status :: string
  g_workflow_status :: string
  g_created_at :: timestamptz
  g_updated_at :: timestamptz

record message_group =
  mg_message_id :: uuid
  mg_group_id :: uuid
  mg_similarity_score :: real
  mg_created_at :: timestamptz

record db =
  messages :: "message_row list"
  issue_groups :: "issue_group list"
  message_groups :: "message_group list"

section \<open>Persistence: the constraints of schema.sql\<close>

datatype pg_error = Unique_violation | Foreign_key_violation | Check_violation | Not_null_violation

datatype column = Title | Summary | Category | Priority | Status | Workflow_status

definition category_check :: "string \<Rightarrow> bool" where
  "category_check c = (c \<in> set [''support'', ''bug'', ''feature'', ''question''])"

definition priority_check :: "string \<Rightarrow> bool" where
  "priority_check p = (p \<in> set [''critical'', ''high'', ''medium'', ''low''])"

definition status_check :: "string \<Rightarrow> bool" where
  \<comment> \<open>\<open>CHECK (status IN ('open', 'closed'))\<close> of the base schema.\<close>
  "status_check s = (s \<in> set [''open'', ''closed''])"

definition workflow_status_check :: "string \<Rightarrow> bool" where
  "workflow_status_check w =
     (w \<in> set [''backlog'', ''todo'', ''in_progress'', ''blocked'', ''resolved'', ''closed''])"

definition issue_group_checks :: "issue_group \<Rightarrow> bool" where
  "issue_group_checks g =
     (category_check (g_category g) \<and> priority_check (g_priority g) \<and>
      status_check (g_status g) \<and> workflow_status_check (g_workflow_status g))"

definition checks_ok :: "db \<Rightarrow> bool" where
  \<comment> \<open>Every stored row of \<open>issue_groups\<close> satisfies the CHECK constraints.\<close>
  "checks_ok d = list_all issue_group_checks (issue_groups d)"

fun value_ok :: "column \<Rightarrow> string \<Rightarrow> bool" where
  \<comment> \<open>The CHECK constraint, if any, on a single column.\<close>
  "value_ok Title v = True"
| "value_ok Summary v = True"
| "value_ok Category v = category_check v"
| "value_ok Priority v = priority_check v"
| "value_ok Status v = status_check v"
| "value_ok Workflow_status v = workflow_status_check v"

definition issue_groups_columns :: "string list" where
  \<comment> \<open>The columns of \<open>issue_groups\<close>: those of \<open>CREATE TABLE\<close> and the one the migration
      adds (\<open>priority\<close> is in both).\<close>
  "issue_groups_columns =
     [''id'', ''title'', ''summary'', ''category'', ''priority'', ''status'', ''created_at'',
      ''updated_at'', ''workflow_status'']"

fun column_name :: "column \<Rightarrow> string" where
  \<comment> \<open>The key under which a handler names a column in the object it hands to the client.\<close>
  "column_name Title = ''title''"
| "column_name Summary = ''summary''"
| "column_name Category = ''category''"
| "column_name Priority = ''priority''"
| "column_name Status = ''status''"
| "column_name Workflow_status = ''workflow_status''"

fun set_column :: "column \<Rightarrow> string \<Rightarrow> issue_group \<Rightarrow> issue_group" where
  "set_column Title v g = g\<lparr>g_title := v\<rparr>"
| "set_column Summary v g = g\<lparr>g_summary := v\<rparr>"
| "set_column Category v g = g\<lparr>g_category := v\<rparr>"
| "set_column Priority v g = g\<lparr>g_priority := v\<rparr>"
| "set_column Status v g = g\<lparr>g_status := v\<rparr>"
| "set_column Workflow_status v g = g\<lparr>g_workflow_status := v\<rparr>"

fun get_column :: "column \<Rightarrow> issue_group \<Rightarrow> string" where
  "get_column Title g = g_title g"
| "get_column Summary g = g_summary g"
| "get_column Category g = g_category g"
| "get_column Priority g = g_priority g"
| "get_column Status g = g_status g"
| "get_column Workflow_status g = g_workflow_status g"

fun apply_values :: "(column \<times> string) list \<Rightarrow> issue_group \<Rightarrow> issue_group" where
  \<comment> \<open>The object handed to \<open>.insert\<close> or \<open>.update\<close>: one value per named column.\<close>
  "apply_values [] g = g"
| "apply_values ((c, v) # vs) g = apply_values vs (set_column c v g)"

record pg_env =
  env_now :: timestamptz  \<comment> \<open>the reading of \<open>NOW()\<close>\<close>
  env_uuid :: uuid        \<comment> \<open>the value \<open>gen_random_uuid()\<close> yields next\<close>

datatype request =
    Insert_issue_groups "(column \<times> string) list"
  | Update_issue_groups "(column \<times> string) list" uuid
  | Delete_issue_groups uuid
  | Insert_message_groups uuid uuid real
  | Delete_message_groups uuid uuid

definition insert_issue_groups ::
  "pg_env \<Rightarrow> db \<Rightarrow> (column \<times> string) list \<Rightarrow> (pg_error + issue_group list) \<times> db" where
  \<comment> \<open>Column defaults, then NOT NULL, CHECK and PRIMARY KEY; the new row is returned.\<close>
  "insert_issue_groups env d vs =
     (let row = apply_values vs
            \<lparr>g_id = env_uuid env, g_title = [], g_summary = [], g_category = [],
             g_priority = ''medium'', g_status = ''open'', g_workflow_status = ''backlog'',
             g_created_at = env_now env, g_updated_at = env_now env\<rparr>
      in if \<not> (Title \<in> set (map fst vs) \<and> Summary \<in> set (map fst vs) \<and> Category \<in> set (map fst vs))
         then (Inl Not_null_violation, d)
         else if \<not> issue_group_checks row then (Inl Check_violation, d)
         else if g_id row \<in> set (map g_id (issue_groups d)) then (Inl Unique_violation, d)
         else (Inr [row], d\<lparr>issue_groups := issue_groups d @ [row]\<rparr>))"

definition touch :: "pg_env \<Rightarrow> (column \<times> string) list \<Rightarrow> issue_group \<Rightarrow> issue_group" where
  \<comment> \<open>The new row of an UPDATE: the SET values, then the trigger
      \<open>update_issue_groups_updated_at\<close> (\<open>NEW.updated_at = NOW()\<close>).\<close>
  "touch env vs g = (apply_values vs g)\<lparr>g_updated_at := env_now env\<rparr>"

definition update_issue_groups ::
  "pg_env \<Rightarrow> db \<Rightarrow> (column \<times> string) list \<Rightarrow> uuid \<Rightarrow> (pg_error + issue_group list) \<times> db" where
  \<comment> \<open>\<open>.update(vs).eq('id', gid)\<close>: a new row that fails a CHECK aborts the statement.\<close>
  "update_issue_groups env d vs gid =
     (if list_all (\<lambda>g. issue_group_checks (touch env vs g))
           (filter (\<lambda>g. g_id g = gid) (issue_groups d))
      then (Inr [], d\<lparr>issue_groups :=
              map (\<lambda>g. if g_id g = gid then touch env vs g else g) (issue_groups d)\<rparr>)
      else (Inl Check_violation, d))"

definition delete_issue_groups :: "db \<Rightarrow> uuid \<Rightarrow> (pg_error + issue_group list) \<times> db" where
  \<comment> \<open>\<open>group_id ... REFERENCES issue_groups(id) ON DELETE CASCADE\<close> removes the links too.\<close>
  "delete_issue_groups d gid =
     (Inr [], d\<lparr>issue_groups := filter (\<lambda>g. g_id g \<noteq> gid) (issue_groups d),
                message_groups := filter (\<lambda>r. mg_group_id r \<noteq> gid) (message_groups d)\<rparr>)"

definition insert_message_groups ::
  "pg_env \<Rightarrow> db \<Rightarrow> uuid \<Rightarrow> uuid \<Rightarrow> real \<Rightarrow> (pg_error + issue_group list) \<times> db" where
  \<comment> \<open>\<open>PRIMARY KEY (message_id, group_id)\<close> and the two foreign keys.\<close>
  "insert_message_groups env d mid gid score =
     (if (mid, gid) \<in> set (map (\<lambda>r. (mg_message_id r, mg_group_id r)) (message_groups d))
      then (Inl Unique_violation, d)
      else if mid \<notin> set (map m_id (messages d)) then (Inl Foreign_key_violation, d)
      else if gid \<notin> set (map g_id (issue_groups d)) then (Inl Foreign_key_violation, d)
      else (Inr [], d\<lparr>message_groups := message_groups d @
              [\<lparr>mg_message_id = mid, mg_group_id = gid, mg_similarity_score = score,
                mg_created_at = env_now env\<rparr>]\<rparr>))"

definition delete_message_groups :: "db \<Rightarrow> uuid \<Rightarrow> uuid \<Rightarrow> (pg_error + issue_group list) \<times> db" where
  "delete_message_groups d mid gid =
     (Inr [], d\<lparr>message_groups :=
        filter (\<lambda>r. \<not> (mg_message_id r = mid \<and> mg_group_id r = gid)) (message_groups d)\<rparr>)"

fun exec :: "pg_env \<Rightarrow> db \<Rightarrow> request \<Rightarrow> (pg_error + issue_group list) \<times> db" where
  \<comment> \<open>One awaited call of the client: \<open>Inl\<close> is the \<open>error\<close> of the reply, \<open>Inr\<close> its \<open>data\<close>.\<close>
  "exec env d (Insert_issue_groups vs) = insert_issue_groups env d vs"
| "exec env d (Update_issue_groups vs gid) = update_issue_groups env d vs gid"
| "exec env d (Delete_issue_groups gid) = delete_issue_groups d gid"
| "exec env d (Insert_message_groups mid gid score) = insert_message_groups env d mid gid score"
| "exec env d (Delete_message_groups mid gid) = delete_message_groups d mid gid"

fun run_writes :: "pg_env \<Rightarrow> db \<Rightarrow> request list \<Rightarrow> db" where
  \<comment> \<open>Calls awaited one after the other whose replies are not looked at.\<close>
  "run_writes env d [] = d"
| "run_writes env d (r # rs) = run_writes env (snd (exec env d r)) rs"

fun observable_states :: "pg_env \<Rightarrow> db \<Rightarrow> request list \<Rightarrow> db list" where
  \<comment> \<open>Every call commits on its own: a reader can see the state before the first call
      and the state after each call.\<close>
  "observable_states env d [] = [d]"
| "observable_states env d (r # rs) = d # observable_states env (snd (exec env d r)) rs"

definition members :: "db \<Rightarrow> uuid \<Rightarrow> uuid list" where
  \<comment> \<open>The query "all memberships for group X", as message ids.\<close>
  "members d gid = map mg_message_id (filter (\<lambda>r. mg_group_id r = gid) (message_groups d))"

definition groups_of :: "db \<Rightarrow> uuid \<Rightarrow> uuid list" where
  "groups_of d mid = map mg_group_id (filter (\<lambda>r. mg_message_id r = mid) (message_groups d))"

definition links :: "db \<Rightarrow> (uuid \<times> uuid \<times> real) list" where
  \<comment> \<open>The link table as (message, group, similarity score) triples.\<close>
  "links d = map (\<lambda>r. (mg_message_id r, mg_group_id r, mg_similarity_score r)) (message_groups d)"

definition fk_ok :: "db \<Rightarrow> bool" where
  \<comment> \<open>Both foreign keys of \<open>message_groups\<close> hold.\<close>
  "fk_ok d = (set (map mg_message_id (message_groups d)) \<subseteq> set (map m_id (messages d)) \<and>
              set (map mg_group_id (message_groups d)) \<subseteq> set (map g_id (issue_groups d)))"

definition pk_ok :: "db \<Rightarrow> bool" where
  \<comment> \<open>The primary keys of the three tables hold.\<close>
  "pk_ok d = (distinct (map m_id (messages d)) \<and> distinct (map g_id (issue_groups d)) \<and>
              distinct (map (\<lambda>r. (mg_message_id r, mg_group_id r)) (message_groups d)))"

section \<open>Dashboard state and handlers (useIssueGroups.ts, IssueModal.tsx)\<close>

text \<open>
  Each handler is a function of the database, of the props and component state it reads
  (\<open>selectedGroup\<close>, \<open>groupMessages\<close>, \<open>availableGroups\<close>, \<open>editedTitle\<close>), of the user's
  answer to \<open>confirm\<close> and of its argument, and returns how it ended together with the
  database it leaves. The view state it sets on the way (spinners, open modals, the local
  copy of the edited field) is not part of the model.

  The objects of \<open>groupMessages\<close> have the columns of a \<open>messages\<close> row. The merge handler
  also reads a property \<open>similarity_score\<close> of them; \<open>None\<close> is \<open>undefined\<close>.
\<close>

record Message = message_row +
  similarity_score :: "real option"

definition fetchGroupMessages :: "db \<Rightarrow> uuid \<Rightarrow> Message list" where
  \<comment> \<open>\<open>.from('message_groups').select('messages(*)').eq('group_id', groupId)\<close>, then
      \<open>row.messages\<close> with the null ones filtered out: the embedded row has the columns
      of \<open>messages\<close> and nothing of the link.\<close>
  "fetchGroupMessages d groupId =
     List.map_filter
       (\<lambda>r. map_option (\<lambda>m. message_row.extend m \<lparr>similarity_score = None\<rparr>)
               (find (\<lambda>m. m_id m = mg_message_id r) (messages d)))
       (filter (\<lambda>r. mg_group_id r = groupId) (message_groups d))"

definition handleOpenMergeModal :: "db \<Rightarrow> issue_group \<Rightarrow> issue_group list" where
  \<comment> \<open>The groups offered as merge targets: not the selected one, status open, newest
      first, at most 20. Rows of equal \<open>created_at\<close> come in an order SQL leaves open.\<close>
  "handleOpenMergeModal d selectedGroup =
     take 20 (rev (sort_key g_created_at
       (filter (\<lambda>g. g_id g \<noteq> g_id selectedGroup \<and> g_status g = ''open'') (issue_groups d))))"

datatype outcome = Returned | Done | Failed
  \<comment> \<open>\<open>Returned\<close>: an early \<open>return\<close>; \<open>Done\<close>: the \<open>try\<close> block ran to its end;
      \<open>Failed\<close>: an error was thrown and caught.\<close>

definition js_or :: "real option \<Rightarrow> real \<Rightarrow> real" where
  \<comment> \<open>\<open>x || d\<close> for a number that may be undefined: \<open>undefined\<close> and \<open>0\<close> are falsy.\<close>
  "js_or x d = (case x of None \<Rightarrow> d | Some v \<Rightarrow> if v = 0 then d else v)"

fun merge_writes :: "uuid \<Rightarrow> uuid \<Rightarrow> Message list \<Rightarrow> request list" where
  \<comment> \<open>The loop over \<open>groupMessages\<close>, then the delete of the current group.\<close>
  "merge_writes source target [] = [Delete_issue_groups source]"
| "merge_writes source target (msg # rest) =
     Delete_message_groups (m_id msg) source #
     Insert_message_groups (m_id msg) target (js_or (similarity_score msg) 1.0) #
     merge_writes source target rest"

definition handleMergeIntoGroup ::
  "pg_env \<Rightarrow> db \<Rightarrow> issue_group \<Rightarrow> Message list \<Rightarrow> issue_group list \<Rightarrow> bool \<Rightarrow> uuid \<Rightarrow> outcome \<times> db" where
  \<comment> \<open>\<open>confirmed\<close> is the answer to \<open>confirm(...)\<close>. The client returns errors in the reply
      and does not throw; no reply is inspected, so the \<open>catch\<close> block is never entered.\<close>
  "handleMergeIntoGroup env d selectedGroup groupMessages availableGroups confirmed targetGroupId =
     (case find (\<lambda>g. g_id g = targetGroupId) availableGroups of
        None \<Rightarrow> (Returned, d)
      | Some targetGroup \<Rightarrow>
          if \<not> confirmed then (Returned, d)
          else (Done, run_writes env d (merge_writes (g_id selectedGroup) targetGroupId groupMessages)))"

definition split_offered :: "Message list \<Rightarrow> bool" where
  \<comment> \<open>The Split button is rendered only when \<open>groupMessages.length > 1\<close>.\<close>
  "split_offered groupMessages = (length groupMessages > 1)"

definition split_values :: "Message \<Rightarrow> (column \<times> string) list" where
  "split_values message =
     [(Title, capitalize (m_category message) @ '': '' @ take 50 (m_summary message)),
      (Summary, m_summary message),
      (Category, m_category message),
      (Status, ''open'')]"

definition handleSplitMessage ::
  "pg_env \<Rightarrow> db \<Rightarrow> issue_group \<Rightarrow> Message list \<Rightarrow> bool \<Rightarrow> uuid \<Rightarrow> outcome \<times> db" where
  "handleSplitMessage env d selectedGroup groupMessages confirmed messageId =
     (if \<not> confirmed then (Returned, d)
      else case find (\<lambda>m. m_id m = messageId) groupMessages of
        None \<Rightarrow> (Returned, d)
      | Some message \<Rightarrow>
          (case exec env d (Insert_issue_groups (split_values message)) of
             (Inr [newGroup], d1) \<Rightarrow>
               (Done, run_writes env d1
                  [Delete_message_groups messageId (g_id selectedGroup),
                   Insert_message_groups messageId (g_id newGroup) 1.0])
           | (_, d1) \<Rightarrow> (Failed, d1)))"

definition handleSaveTitle :: "pg_env \<Rightarrow> db \<Rightarrow> issue_group \<Rightarrow> string \<Rightarrow> outcome \<times> db" where
  "handleSaveTitle env d selectedGroup editedTitle =
     (if trim editedTitle = [] \<or> editedTitle = g_title selectedGroup then (Returned, d)
      else case exec env d (Update_issue_groups [(Title, trim editedTitle)] (g_id selectedGroup)) of
        (Inl error, d1) \<Rightarrow> (Failed, d1)
      | (Inr _, d1) \<Rightarrow> (Done, d1))"

definition handleUpdatePriority :: "pg_env \<Rightarrow> db \<Rightarrow> issue_group \<Rightarrow> string \<Rightarrow> outcome \<times> db" where
  "handleUpdatePriority env d selectedGroup newPriority =
     (case exec env d (Update_issue_groups [(Priority, newPriority)] (g_id selectedGroup)) of
        (Inl error, d1) \<Rightarrow> (Failed, d1)
      | (Inr _, d1) \<Rightarrow> (Done, d1))"

definition handleUpdateWorkflowStatus :: "pg_env \<Rightarrow> db \<Rightarrow> issue_group \<Rightarrow> string \<Rightarrow> outcome \<times> db" where
  "handleUpdateWorkflowStatus env d selectedGroup newStatus =
     (case exec env d (Update_issue_groups [(Workflow_status, newStatus)] (g_id selectedGroup)) of
        (Inl error, d1) \<Rightarrow> (Failed, d1)
      | (Inr _, d1) \<Rightarrow> (Done, d1))"

definition toggle_request :: "uuid \<Rightarrow> string \<Rightarrow> request" where
  \<comment> \<open>The call \<open>toggleGroupStatus\<close> issues.\<close>
  "toggle_request groupId currentStatus =
     (let newStatus = (if currentStatus = ''open'' then ''resolved'' else ''open'')
      in Update_issue_groups [(Status, newStatus)] groupId)"

definition toggleGroupStatus :: "pg_env \<Rightarrow> db \<Rightarrow> uuid \<Rightarrow> string \<Rightarrow> outcome \<times> db" where
  "toggleGroupStatus env d groupId currentStatus =
     (case exec env d (toggle_request groupId currentStatus) of
        (Inl error, d1) \<Rightarrow> (Failed, d1)
      | (Inr _, d1) \<Rightarrow> (Done, d1))"

section \<open>Dashboard filters (utils.ts)\<close>

definition getTimeFilterDate :: "timestamptz \<Rightarrow> string \<Rightarrow> timestamptz option" where
  \<comment> \<open>\<open>now\<close> is the reading of \<open>new Date()\<close>; \<open>None\<close> is the \<open>null\<close> result.\<close>
  "getTimeFilterDate now filter_value =
     (if filter_value = ''all'' then None
      else if filter_value = ''24h'' then Some (now - 24 * 60 * 60 * 1000)
      else if filter_value = ''7d'' then Some (now - 7 * 24 * 60 * 60 * 1000)
      else if filter_value = ''30d'' then Some (now - 30 * 24 * 60 * 60 * 1000)
      else None)"

definition category_pass :: "string \<Rightarrow> issue_group \<Rightarrow> bool" where
  "category_pass selectedCategory g = (selectedCategory = ''all'' \<or> g_category g = selectedCategory)"

definition time_pass :: "timestamptz \<Rightarrow> string \<Rightarrow> issue_group \<Rightarrow> bool" where
  "time_pass now selectedTimeFilter g =
     (case getTimeFilterDate now selectedTimeFilter of
        None \<Rightarrow> True
      | Some timeFilterDate \<Rightarrow> g_created_at g \<ge> timeFilterDate)"

definition search_pass :: "string \<Rightarrow> issue_group \<Rightarrow> bool" where
  "search_pass searchQuery g =
     (if trim searchQuery = [] then True
      else (let query = toLowerCase searchQuery
            in includes_str (toLowerCase (g_title g)) query \<or> includes_str (toLowerCase (g_summary g)) query))"

definition filterIssueGroups ::
  "timestamptz \<Rightarrow> issue_group list \<Rightarrow> string \<Rightarrow> string \<Rightarrow> string \<Rightarrow> issue_group list" where
  "filterIssueGroups now groups selectedCategory selectedTimeFilter searchQuery =
     filter (search_pass searchQuery)
       (filter (time_pass now selectedTimeFilter)
         (filter (category_pass selectedCategory) groups))"

section \<open>Grouping engine (backend/app/grouping.py)\<close>

text \<open>
  Modelled from the spec: the assignment algorithm of the backend, \<open>backend/app/grouping.py\<close>,
  is not among the sources; the README only names its similarity threshold (default 0.60).
  The records and functions of this section follow section 4.2 of the specification word
  for word. The Embedding Store is an external collaborator: the result of its
  \<open>nearest\<close> query, ordered by descending similarity, is an argument.
\<close>

record incoming =
  in_id :: uuid
  in_thread_id :: "string option"
  in_category :: string
  in_summary :: string

record neighbor =
  n_message_id :: uuid
  n_group_id :: uuid
  n_similarity :: real

record cluster =
  c_id :: uuid
  c_title :: string
  c_summary :: string
  c_category :: string
  c_workflow_status :: string
  c_priority :: string
  c_assignee :: "string option"
  c_due_date :: "string option"

record membership =
  ms_message :: uuid
  ms_group :: uuid
  ms_score :: real

record engine =
  thread_index :: "string \<Rightarrow> uuid option"
  clusters :: "cluster list"
  memberships :: "membership list"

record config =
  threshold :: real
  title_of :: "string \<Rightarrow> string"
  summary_of :: "string \<Rightarrow> string"

definition default_threshold :: real where
  \<comment> \<open>Modelled from the spec: "a configured threshold T (default 0.60)".\<close>
  "default_threshold = 0.60"

datatype decision = Thread_affinity uuid | Nearest_neighbor uuid real | New_group

definition thread_match :: "engine \<Rightarrow> incoming \<Rightarrow> uuid option" where
  \<comment> \<open>Modelled from the spec: step 1, "m.threadId is non-null and the Thread Index already
      maps that thread id to an existing group g".\<close>
  "thread_match e m =
     (case in_thread_id m of
        None \<Rightarrow> None
      | Some t \<Rightarrow>
          (case thread_index e t of
             None \<Rightarrow> None
           | Some g \<Rightarrow> if g \<in> set (map c_id (clusters e)) then Some g else None))"

definition decide :: "config \<Rightarrow> engine \<Rightarrow> incoming \<Rightarrow> neighbor list \<Rightarrow> decision" where
  \<comment> \<open>Modelled from the spec: steps 1 to 3 "in strict priority order (first rule that fires
      wins, no fallthrough)"; step 2 compares "the single best match" with the threshold.\<close>
  "decide cfg e m nearest =
     (case thread_match e m of
        Some g \<Rightarrow> Thread_affinity g
      | None \<Rightarrow>
          (case nearest of
             [] \<Rightarrow> New_group
           | best # _ \<Rightarrow>
               if n_similarity best \<ge> threshold cfg
               then Nearest_neighbor (n_group_id best) (n_similarity best)
               else New_group))"

definition new_cluster :: "config \<Rightarrow> uuid \<Rightarrow> incoming \<Rightarrow> cluster" where
  \<comment> \<open>Modelled from the spec: step 3, "category copied from m, title and summary derived from
      m's generated summary, initial workflow status = backlog, initial priority = medium,
      empty assignee/due date". How title and summary are derived is left to \<open>config\<close>.\<close>
  "new_cluster cfg fresh m =
     \<lparr>c_id = fresh, c_title = title_of cfg (in_summary m), c_summary = summary_of cfg (in_summary m),
      c_category = in_category m, c_workflow_status = ''backlog'', c_priority = ''medium'',
      c_assignee = None, c_due_date = None\<rparr>"

definition assign :: "config \<Rightarrow> uuid \<Rightarrow> engine \<Rightarrow> incoming \<Rightarrow> neighbor list \<Rightarrow> engine" where
  \<comment> \<open>Modelled from the spec: the membership write of steps 1 to 3 (score 1.0 for a thread
      match, the observed similarity for a neighbour match) and step 4, the registration
      of a new group under the thread id. The spec gives no score for the first member of
      a new group; the self-similarity 1.0 of Split is used.\<close>
  "assign cfg fresh e m nearest =
     (case decide cfg e m nearest of
        Thread_affinity g \<Rightarrow>
          e\<lparr>memberships := memberships e @ [\<lparr>ms_message = in_id m, ms_group = g, ms_score = 1.0\<rparr>]\<rparr>
      | Nearest_neighbor g s \<Rightarrow>
          e\<lparr>memberships := memberships e @ [\<lparr>ms_message = in_id m, ms_group = g, ms_score = s\<rparr>]\<rparr>
      | New_group \<Rightarrow>
          e\<lparr>clusters := clusters e @ [new_cluster cfg fresh m],
            memberships := memberships e @ [\<lparr>ms_message = in_id m, ms_group = fresh, ms_score = 1.0\<rparr>],
            thread_index := (case in_thread_id m of
                               None \<Rightarrow> thread_index e
                             | Some t \<Rightarrow> (thread_index e)(t \<mapsto> fresh))\<rparr>)"

section \<open>Frame of a field edit\<close>

text \<open>
  What it means for a handler run to be a single-field edit of group \<open>gid\<close>: the other two
  tables are untouched, a run that does not end in \<open>Done\<close> changes nothing, and row by row
  the identity, the creation time and every column but \<open>c\<close> are kept; rows of other groups
  are kept whole, and after a \<open>Done\<close> the edited row has the value \<open>v\<close> in column \<open>c\<close> and
  \<open>now\<close> as its last-update time.
\<close>

definition single_field_edit ::
  "column \<Rightarrow> string \<Rightarrow> uuid \<Rightarrow> timestamptz \<Rightarrow> db \<Rightarrow> outcome \<times> db \<Rightarrow> bool" where
  "single_field_edit c v gid now d res =
     (messages (snd res) = messages d \<and> message_groups (snd res) = message_groups d \<and>
      (fst res \<noteq> Done \<longrightarrow> snd res = d) \<and>
      list_all2 (\<lambda>g g'.
          g_id g' = g_id g \<and> g_created_at g' = g_created_at g \<and>
          (\<forall>c'. c' \<noteq> c \<longrightarrow> get_column c' g' = get_column c' g) \<and>
          (g_id g \<noteq> gid \<longrightarrow> g' = g) \<and>
          (g_id g = gid \<and> fst res = Done \<longrightarrow> get_column c g' = v \<and> g_updated_at g' = now))
        (issue_groups d) (issue_groups (snd res)))"

section \<open>Example data\<close>

definition example_group :: "uuid \<Rightarrow> string \<Rightarrow> string \<Rightarrow> timestamptz \<Rightarrow> issue_group" where
  "example_group gid cat st created =
     \<lparr>g_id = gid, g_title = ''Bug: error 500 on dashboard'', g_summary = ''error 500 on dashboard'',
      g_category = cat, g_priority = ''medium'', g_status = st, g_workflow_status = ''backlog'',
      g_created_at = created, g_updated_at = created\<rparr>"

definition example_message :: "uuid \<Rightarrow> string \<Rightarrow> string \<Rightarrow> message_row" where
  "example_message mid cat summ =
     \<lparr>m_id = mid, m_slack_message_id = mid, m_user_id = ''U1'', m_user_name = ''ada'',
      m_channel_id = ''C1'', m_channel_name = ''help'', m_text = summ, m_thread_ts = None,
      m_timestamp = 5, m_is_relevant = True, m_category = cat, m_confidence = 1,
      m_summary = summ, m_embedding = None, m_created_at = 5\<rparr>"

definition example_link :: "uuid \<Rightarrow> uuid \<Rightarrow> real \<Rightarrow> message_group" where
  "example_link mid gid score =
     \<lparr>mg_message_id = mid, mg_group_id = gid, mg_similarity_score = score, mg_created_at = 5\<rparr>"

definition example_db :: db where
  \<comment> \<open>Group g1 with messages m1 and m2, group g2 with message m3.\<close>
  "example_db =
     \<lparr>messages = [example_message ''m1'' ''bug'' ''error 500 on dashboard'',
                  example_message ''m2'' ''bug'' ''dashboard fails to load'',
                  example_message ''m3'' ''bug'' ''export button broken''],
      issue_groups = [example_group ''g1'' ''bug'' ''open'' 10, example_group ''g2'' ''bug'' ''open'' 20],
      message_groups = [example_link ''m1'' ''g1'' (62 / 100), example_link ''m2'' ''g1'' (7 / 10),
                        example_link ''m3'' ''g2'' (9 / 10)]\<rparr>"

definition example_env :: pg_env where
  "example_env = \<lparr>env_now = 100, env_uuid = ''g9''\<rparr>"

definition example_db_closed :: db where
  \<comment> \<open>As \<open>example_db\<close>, with group g2 closed.\<close>
  "example_db_closed =
     example_db\<lparr>issue_groups := [example_group ''g1'' ''bug'' ''open'' 10, example_group ''g2'' ''bug'' ''closed'' 20]\<rparr>"

definition example_db_shared :: db where
  \<comment> \<open>As \<open>example_db\<close>, with m1 linked to g2 as well.\<close>
  "example_db_shared =
     example_db\<lparr>message_groups := message_groups example_db @ [example_link ''m1'' ''g2'' (5 / 10)]\<rparr>"

definition example_config :: config where
  "example_config = \<lparr>threshold = default_threshold, title_of = take 50, summary_of = (\<lambda>s. s)\<rparr>"

definition example_engine :: engine where
  "example_engine =
     \<lparr>thread_index = Map.empty,
      clusters = [\<lparr>c_id = ''g1'', c_title = ''error 500 on dashboard'', c_summary = ''error 500 on dashboard'',
                   c_category = ''bug'', c_workflow_status = ''backlog'', c_priority = ''medium'',
                   c_assignee = None, c_due_date = None\<rparr>],
      memberships = [\<lparr>ms_message = ''m1'', ms_group = ''g1'', ms_score = 1\<rparr>]\<rparr>"

definition example_incoming :: "uuid \<Rightarrow> string option \<Rightarrow> string \<Rightarrow> incoming" where
  "example_incoming mid thread summ =
     \<lparr>in_id = mid, in_thread_id = thread, in_category = ''bug'', in_summary = summ\<rparr>"

section \<open>The persistence layer keeps its keys\<close>

lemma set_column_frame [simp]:
  "g_id (set_column c v g) = g_id g"
  "g_created_at (set_column c v g) = g_created_at g"
  "g_updated_at (set_column c v g) = g_updated_at g"
  by (cases c; simp)+

lemma get_set_column [simp]: "get_column c' (set_column c v g) = (if c' = c then v else get_column c' g)"
  by (cases c; cases c'; simp)

lemma apply_values_frame [simp]:
  "g_id (apply_values vs g) = g_id g"
  "g_created_at (apply_values vs g) = g_created_at g"
  "g_updated_at (apply_values vs g) = g_updated_at g"
  by (induction vs arbitrary: g; auto)+

lemma touch_frame [simp]:
  "g_id (touch env vs g) = g_id g"
  "g_created_at (touch env vs g) = g_created_at g"
  "g_updated_at (touch env vs g) = env_now env"
  by (simp_all add: touch_def)

lemma get_column_touch_single [simp]:
  "get_column c' (touch env [(c, v)] g) = (if c' = c then v else get_column c' g)"
  by (cases c'; cases c; simp add: touch_def)

lemma map_g_id_touch [simp]:
  "map (g_id \<circ> (\<lambda>g. if g_id g = gid then touch env vs g else g)) gs = map g_id gs"
  by (induction gs) auto

lemma update_frame [simp]:
  "map g_id (issue_groups (snd (update_issue_groups env d vs gid))) = map g_id (issue_groups d)"
  "message_groups (snd (update_issue_groups env d vs gid)) = message_groups d"
  "messages (snd (update_issue_groups env d vs gid)) = messages d"
  by (simp_all add: update_issue_groups_def)

lemma exec_messages [simp]: "messages (snd (exec env d r)) = messages d"
  by (cases r)
     (simp_all add: insert_issue_groups_def delete_issue_groups_def
        insert_message_groups_def delete_message_groups_def Let_def)

lemma exec_pk_ok: "pk_ok d \<Longrightarrow> pk_ok (snd (exec env d r))"
proof (cases r)
  case (Update_issue_groups vs gid)
  assume "pk_ok d"
  then show ?thesis
    unfolding pk_ok_def Update_issue_groups by simp
qed (auto simp: pk_ok_def insert_issue_groups_def delete_issue_groups_def
        insert_message_groups_def delete_message_groups_def Let_def distinct_map_filter)



lemma observable_states_not_Nil [simp]: "observable_states env d rs \<noteq> []"
  by (cases rs) simp_all


lemmas example_defs = example_db_def example_db_closed_def example_group_def example_message_def
  example_link_def example_env_def

lemmas pg_defs = insert_issue_groups_def update_issue_groups_def delete_issue_groups_def
  insert_message_groups_def delete_message_groups_def


text \<open>
  C5 (as the schema enforces it). The key of \<open>message_groups\<close> is the pair (message, group):
  an insert that repeats a pair already present is rejected with a unique violation and
  leaves the database as it was; an insert of a new pair whose message and group exist is
  accepted, whatever other groups the message already belongs to; and every request keeps
  the primary keys of the three tables.
\<close>

theorem membership_pair_unique:
  "((mid, gid) \<in> set (map (\<lambda>r. (mg_message_id r, mg_group_id r)) (message_groups d)) \<longrightarrow>
      exec env d (Insert_message_groups mid gid score) = (Inl Unique_violation, d)) \<and>
   ((mid, gid) \<notin> set (map (\<lambda>r. (mg_message_id r, mg_group_id r)) (message_groups d)) \<and>
    mid \<in> set (map m_id (messages d)) \<and> gid \<in> set (map g_id (issue_groups d)) \<longrightarrow>
      exec env d (Insert_message_groups mid gid score) =
        (Inr [], d\<lparr>message_groups := message_groups d @
           [\<lparr>mg_message_id = mid, mg_group_id = gid, mg_similarity_score = score,
             mg_created_at = env_now env\<rparr>]\<rparr>)) \<and>
   (pk_ok d \<longrightarrow> pk_ok (snd (exec env d req)))"
  using exec_pk_ok [of d env req] by (simp add: insert_message_groups_def)

text \<open>
  C5, an instance: m1 is linked to g1, a second link (m1, g1) is refused, and the keys
  still hold after the link (m1, g2) went in.
\<close>

theorem membership_pair_unique_witness:
  "pk_ok example_db \<and>
   exec example_env example_db (Insert_message_groups ''m1'' ''g1'' (8 / 10))
     = (Inl Unique_violation, example_db) \<and>
   pk_ok (snd (exec example_env example_db (Insert_message_groups ''m1'' ''g2'' (8 / 10))))"
proof -
  have h: "pk_ok example_db"
    by (simp add: pk_ok_def example_defs)
  have p: "(''m1'', ''g1'') \<in> set (map (\<lambda>r. (mg_message_id r, mg_group_id r)) (message_groups example_db))"
    by (simp add: example_defs)
  show ?thesis
    using h p
      membership_pair_unique [of "''m1''" "''g1''" example_db example_env "8 / 10"
        "Insert_message_groups ''m1'' ''g2'' (8 / 10)"]
    by simp
qed

text \<open>
  C5 as stated fails: m1 belongs to g1, the insert of the link (m1, g2) returns no error,
  and m1 then belongs to two groups.
\<close>

theorem two_groups_accepted_counterexample:
  "groups_of example_db ''m1'' = [''g1''] \<and>
   fst (exec example_env example_db (Insert_message_groups ''m1'' ''g2'' (8 / 10))) = Inr [] \<and>
   groups_of (snd (exec example_env example_db (Insert_message_groups ''m1'' ''g2'' (8 / 10)))) ''m1''
     = [''g1'', ''g2'']"
  by (simp add: groups_of_def insert_message_groups_def example_defs)

section \<open>Merging a group into another\<close>

lemma filter_imp_conj: "filter (\<lambda>x. (A x \<longrightarrow> B x) \<and> B x) xs = filter B xs"
  by (rule filter_cong) auto

lemma run_merge_writes:
  fixes ms :: "Message list"
  assumes "distinct (map m_id ms)"
    and "set (map m_id ms) \<subseteq> set (map m_id (messages d))"
    and "target \<in> set (map g_id (issue_groups d))"
    and "source \<noteq> target"
    and "set (map m_id ms) \<inter> set (members d target) = {}"
  shows "run_writes env d (merge_writes source target ms) =
           d\<lparr>issue_groups := filter (\<lambda>g. g_id g \<noteq> source) (issue_groups d),
             message_groups := filter (\<lambda>r. mg_group_id r \<noteq> source) (message_groups d) @
               map (\<lambda>m. \<lparr>mg_message_id = m_id m, mg_group_id = target,
                         mg_similarity_score = js_or (similarity_score m) 1,
                         mg_created_at = env_now env\<rparr>) ms\<rparr>"
  using assms
proof (induction ms arbitrary: d)
  case Nil
  then show ?case by (simp add: delete_issue_groups_def)
next
  case (Cons m ms)
  let ?link = "\<lparr>mg_message_id = m_id m, mg_group_id = target,
                 mg_similarity_score = js_or (similarity_score m) 1, mg_created_at = env_now env\<rparr>"
  define d1 where
    "d1 = snd (exec env (snd (exec env d (Delete_message_groups (m_id m) source)))
               (Insert_message_groups (m_id m) target (js_or (similarity_score m) 1)))"
  have absent: "(m_id m, target) \<notin> set (map (\<lambda>r. (mg_message_id r, mg_group_id r))
      (filter (\<lambda>r. \<not> (mg_message_id r = m_id m \<and> mg_group_id r = source)) (message_groups d)))"
    using Cons.prems(5) by (auto simp: members_def)
  have d1: "d1 = d\<lparr>message_groups :=
      filter (\<lambda>r. \<not> (mg_message_id r = m_id m \<and> mg_group_id r = source)) (message_groups d) @ [?link]\<rparr>"
    using absent Cons.prems(2,3)
    by (simp add: d1_def insert_message_groups_def delete_message_groups_def)
  have mem: "set (members d1 target) \<subseteq> insert (m_id m) (set (members d target))"
    unfolding d1 by (auto simp: members_def)
  have pre: "distinct (map m_id ms)" "set (map m_id ms) \<subseteq> set (map m_id (messages d1))"
    "target \<in> set (map g_id (issue_groups d1))"
    using Cons.prems(1,2,3) by (simp_all add: d1)
  have "m_id m \<notin> set (map m_id ms)"
    using Cons.prems(1) by simp
  moreover have "set (map m_id ms) \<inter> set (members d target) = {}"
    using Cons.prems(5) by auto
  ultimately have disj: "set (map m_id ms) \<inter> set (members d1 target) = {}"
    using mem by blast
  have "run_writes env d (merge_writes source target (m # ms)) =
        run_writes env d1 (merge_writes source target ms)"
    by (simp add: d1_def)
  also have "\<dots> = d1\<lparr>issue_groups := filter (\<lambda>g. g_id g \<noteq> source) (issue_groups d1),
             message_groups := filter (\<lambda>r. mg_group_id r \<noteq> source) (message_groups d1) @
               map (\<lambda>m. \<lparr>mg_message_id = m_id m, mg_group_id = target,
                         mg_similarity_score = js_or (similarity_score m) 1,
                         mg_created_at = env_now env\<rparr>) ms\<rparr>"
    by (rule Cons.IH [OF pre(1,2,3) Cons.prems(4) disj])
  also have "\<dots> = d\<lparr>issue_groups := filter (\<lambda>g. g_id g \<noteq> source) (issue_groups d),
             message_groups := filter (\<lambda>r. mg_group_id r \<noteq> source) (message_groups d) @
               map (\<lambda>m. \<lparr>mg_message_id = m_id m, mg_group_id = target,
                         mg_similarity_score = js_or (similarity_score m) 1,
                         mg_created_at = env_now env\<rparr>) (m # ms)\<rparr>"
    unfolding d1 using Cons.prems(4) by (simp add: filter_imp_conj)
  finally show ?case .
qed

lemma map_filter_total:
  "(\<And>x. x \<in> set xs \<Longrightarrow> \<exists>y. f x = Some y \<and> h y = k x) \<Longrightarrow>
   map h (List.map_filter f xs) = map k xs"
proof (induction xs)
  case Nil
  then show ?case by (simp add: List.map_filter_simps)
next
  case (Cons a xs)
  from Cons.prems [of a] obtain y where "f a = Some y" "h y = k a"
    by auto
  moreover have "map h (List.map_filter f xs) = map k xs"
    using Cons.IH Cons.prems by simp
  ultimately show ?case
    by (simp add: List.map_filter_simps)
qed

lemma find_by_id:
  "i \<in> set (map m_id ms) \<Longrightarrow> \<exists>m. find (\<lambda>m. m_id m = i) ms = Some m \<and> m_id m = i"
  by (induction ms) auto

lemma fetch_ids:
  assumes "fk_ok d"
  shows "map m_id (fetchGroupMessages d g) = members d g"
proof -
  have "\<exists>y. map_option (\<lambda>m. message_row.extend m \<lparr>similarity_score = None\<rparr>)
               (find (\<lambda>m. m_id m = mg_message_id r) (messages d)) = Some y \<and> m_id y = mg_message_id r"
    if "r \<in> set (filter (\<lambda>r. mg_group_id r = g) (message_groups d))" for r
  proof -
    from that assms have "mg_message_id r \<in> set (map m_id (messages d))"
      by (auto simp: fk_ok_def)
    from find_by_id [OF this] show ?thesis
      by (auto simp: message_row.extend_def)
  qed
  then show ?thesis
    unfolding fetchGroupMessages_def members_def by (rule map_filter_total)
qed

lemma fetch_scores: "m \<in> set (fetchGroupMessages d g) \<Longrightarrow> similarity_score m = None"
  by (auto simp: fetchGroupMessages_def List.map_filter_def message_row.extend_def)

lemma members_distinct:
  assumes "pk_ok d"
  shows "distinct (members d g)"
proof -
  let ?rs = "filter (\<lambda>r. mg_group_id r = g) (message_groups d)"
  from assms have "distinct (map (\<lambda>r. (mg_message_id r, mg_group_id r)) ?rs)"
    by (simp add: pk_ok_def distinct_map_filter)
  then have "distinct ?rs" and inj: "inj_on (\<lambda>r. (mg_message_id r, mg_group_id r)) (set ?rs)"
    by (simp_all add: distinct_map)
  moreover have "inj_on mg_message_id (set ?rs)"
    using inj by (auto simp: inj_on_def)
  ultimately show ?thesis
    by (simp add: members_def distinct_map)
qed

lemma message_groups_writes_issue_groups [simp]:
  "issue_groups (snd (delete_message_groups d mid gid)) = issue_groups d"
  "issue_groups (snd (insert_message_groups env d mid gid score)) = issue_groups d"
  by (simp_all add: insert_message_groups_def delete_message_groups_def)


lemma find_None_ids: "find (\<lambda>g. g_id g = t) gs = None \<longleftrightarrow> t \<notin> set (map g_id gs)"
  by (induction gs) auto




text \<open>
  C2. The merge of g1 (m1 with score 0.62, m2 with score 0.7) into g2, with the messages
  as \<open>fetchGroupMessages\<close> loads them and the targets as the dialog offers them: both
  messages arrive in g2 with score 1, not with the scores they had.
\<close>

theorem merge_resets_similarity_score:
  "links example_db = [(''m1'', ''g1'', 62 / 100), (''m2'', ''g1'', 7 / 10), (''m3'', ''g2'', 9 / 10)] \<and>
   handleOpenMergeModal example_db (example_group ''g1'' ''bug'' ''open'' 10)
     = [example_group ''g2'' ''bug'' ''open'' 20] \<and>
   links (snd (handleMergeIntoGroup example_env example_db (example_group ''g1'' ''bug'' ''open'' 10)
      (fetchGroupMessages example_db ''g1'')
      (handleOpenMergeModal example_db (example_group ''g1'' ''bug'' ''open'' 10)) True ''g2''))
   = [(''m3'', ''g2'', 9 / 10), (''m1'', ''g2'', 1), (''m2'', ''g2'', 1)]"
  by (simp add: handleMergeIntoGroup_def fetchGroupMessages_def handleOpenMergeModal_def
       example_defs pg_defs List.map_filter_def message_row.extend_def js_or_def links_def)

lemma filter_other_group:
  "g \<noteq> source \<Longrightarrow>
   filter (\<lambda>x. mg_group_id x \<noteq> source \<and> mg_group_id x = g) xs = filter (\<lambda>r. mg_group_id r = g) xs"
  by (rule filter_cong) auto

lemma members_merged:
  assumes "source \<noteq> target"
  shows "members (d\<lparr>issue_groups := gs,
             message_groups := filter (\<lambda>r. mg_group_id r \<noteq> source) (message_groups d) @
               map (\<lambda>m. \<lparr>mg_message_id = m_id m, mg_group_id = target,
                         mg_similarity_score = js_or (similarity_score m) 1,
                         mg_created_at = now\<rparr>) ms\<rparr>) g
         = (if g = source then [] else if g = target then members d g @ map m_id ms else members d g)"
  using assms by (simp add: members_def filter_other_group o_def)

text \<open>
  C4 (with the conditions the handler needs). Let the database satisfy its keys, let the
  target exist, differ from the source and be among the groups offered, let the user
  confirm, let the displayed messages be the current members of the source, and let no
  message be linked to both groups. Then the merge runs to its end, the members of the
  target are its former members followed by the members of the source (so their number
  is the sum, and no message occurs twice), the source has no members and no row left,
  the target still exists, no message row changes and no other group gains or loses a
  member.
\<close>

theorem merge_complete:
  assumes "pk_ok d" and "fk_ok d"
    and "g_id selectedGroup \<noteq> target"
    and "target \<in> set (map g_id (issue_groups d))"
    and "target \<in> set (map g_id availableGroups)"
    and "confirmed"
    and "groupMessages = fetchGroupMessages d (g_id selectedGroup)"
    and "set (members d (g_id selectedGroup)) \<inter> set (members d target) = {}"
  shows "(let res = handleMergeIntoGroup env d selectedGroup groupMessages availableGroups confirmed target
          in fst res = Done \<and>
             members (snd res) target = members d target @ members d (g_id selectedGroup) \<and>
             length (members (snd res) target)
               = length (members d (g_id selectedGroup)) + length (members d target) \<and>
             distinct (members (snd res) target) \<and>
             members (snd res) (g_id selectedGroup) = [] \<and>
             g_id selectedGroup \<notin> set (map g_id (issue_groups (snd res))) \<and>
             target \<in> set (map g_id (issue_groups (snd res))) \<and>
             messages (snd res) = messages d \<and>
             (\<forall>g. g \<noteq> g_id selectedGroup \<and> g \<noteq> target \<longrightarrow> members (snd res) g = members d g))"
proof -
  let ?source = "g_id selectedGroup"
  have ids: "map m_id groupMessages = members d ?source"
    using assms(2,7) by (simp add: fetch_ids)
  obtain t where t: "find (\<lambda>g. g_id g = target) availableGroups = Some t"
    using assms(5) find_None_ids [of target availableGroups] by (cases "find (\<lambda>g. g_id g = target) availableGroups") auto
  have pre: "distinct (map m_id groupMessages)"
      "set (map m_id groupMessages) \<subseteq> set (map m_id (messages d))"
      "set (map m_id groupMessages) \<inter> set (members d target) = {}"
    using assms(1,2,8) members_distinct [of d ?source] unfolding ids
    by (auto simp: fk_ok_def members_def)
  have run: "handleMergeIntoGroup env d selectedGroup groupMessages availableGroups confirmed target
      = (Done, d\<lparr>issue_groups := filter (\<lambda>g. g_id g \<noteq> ?source) (issue_groups d),
             message_groups := filter (\<lambda>r. mg_group_id r \<noteq> ?source) (message_groups d) @
               map (\<lambda>m. \<lparr>mg_message_id = m_id m, mg_group_id = target,
                         mg_similarity_score = js_or (similarity_score m) 1,
                         mg_created_at = env_now env\<rparr>) groupMessages\<rparr>)"
    using t assms(6) run_merge_writes [OF pre(1,2) assms(4,3) pre(3), of env]
    by (simp add: handleMergeIntoGroup_def)
  show ?thesis
    unfolding run Let_def fst_conv snd_conv members_merged [OF assms(3)]
    using assms(1,3,4,8) ids members_distinct [of d ?source] members_distinct [of d target]
    by auto
qed

text \<open>
  C4, an instance: g1 (m1, m2) merged into g2 (m3) leaves g2 with m3, m1, m2.
\<close>

theorem merge_complete_witness:
  "pk_ok example_db \<and> fk_ok example_db \<and>
   members example_db ''g1'' = [''m1'', ''m2''] \<and> members example_db ''g2'' = [''m3''] \<and>
   members (snd (handleMergeIntoGroup example_env example_db (example_group ''g1'' ''bug'' ''open'' 10)
      (fetchGroupMessages example_db ''g1'')
      (handleOpenMergeModal example_db (example_group ''g1'' ''bug'' ''open'' 10)) True ''g2'')) ''g2''
     = [''m3'', ''m1'', ''m2'']"
proof -
  let ?g1 = "example_group ''g1'' ''bug'' ''open'' 10"
  have h1: "pk_ok example_db" and h2: "fk_ok example_db"
    by (simp_all add: fk_ok_def pk_ok_def example_defs)
  have h3: "g_id ?g1 \<noteq> ''g2''"
    by (simp add: example_defs)
  have h4: "''g2'' \<in> set (map g_id (issue_groups example_db))"
    by (simp add: example_defs)
  have h5: "''g2'' \<in> set (map g_id (handleOpenMergeModal example_db ?g1))"
    by (simp add: handleOpenMergeModal_def example_defs)
  have m1: "members example_db ''g1'' = [''m1'', ''m2'']" and m2: "members example_db ''g2'' = [''m3'']"
    by (simp_all add: members_def example_defs)
  have h8: "set (members example_db (g_id ?g1)) \<inter> set (members example_db ''g2'') = {}"
    by (simp add: members_def example_defs)
  have g: "g_id ?g1 = ''g1''"
    by (simp add: example_defs)
  show ?thesis
    using h1 h2 m1 m2 merge_complete [OF h1 h2 h3 h4 h5 TrueI refl h8, of example_env]
    unfolding g by (simp add: Let_def)
qed

text \<open>
  C4 as stated fails for a target that exists but is not open: g2 is closed, the dialog
  offers no group, and the merge of g1 into g2 returns without a write. It also fails
  when a message is linked to both groups, which the key of \<open>message_groups\<close> allows:
  g1 holds m1 and m2, g2 holds m3 and m1, and after the merge g2 holds three messages,
  not four.
\<close>

theorem merge_closed_target_counterexample:
  "''g2'' \<in> set (map g_id (issue_groups example_db_closed)) \<and>
   members example_db_closed ''g1'' = [''m1'', ''m2''] \<and>
   members example_db_closed ''g2'' = [''m3''] \<and>
   handleOpenMergeModal example_db_closed (example_group ''g1'' ''bug'' ''open'' 10) = [] \<and>
   handleMergeIntoGroup example_env example_db_closed (example_group ''g1'' ''bug'' ''open'' 10)
      (fetchGroupMessages example_db_closed ''g1'')
      (handleOpenMergeModal example_db_closed (example_group ''g1'' ''bug'' ''open'' 10)) True ''g2''
     = (Returned, example_db_closed) \<and>
   pk_ok example_db_shared \<and> fk_ok example_db_shared \<and>
   members example_db_shared ''g1'' = [''m1'', ''m2''] \<and>
   members example_db_shared ''g2'' = [''m3'', ''m1''] \<and>
   members (snd (handleMergeIntoGroup example_env example_db_shared
      (example_group ''g1'' ''bug'' ''open'' 10) (fetchGroupMessages example_db_shared ''g1'')
      (handleOpenMergeModal example_db_shared (example_group ''g1'' ''bug'' ''open'' 10)) True ''g2''))
      ''g2'' = [''m3'', ''m1'', ''m2'']"
  by (simp add: handleMergeIntoGroup_def handleOpenMergeModal_def fetchGroupMessages_def members_def
        pk_ok_def fk_ok_def example_defs example_db_shared_def pg_defs List.map_filter_def
        message_row.extend_def js_or_def)

section \<open>Splitting a message out of a group\<close>

lemma members_fresh:
  assumes "fk_ok d" and "u \<notin> set (map g_id (issue_groups d))"
  shows "filter (\<lambda>r. mg_group_id r = u) (message_groups d) = []"
  using assms by (auto simp: fk_ok_def filter_empty_conv)

text \<open>
  C3 (as the handler runs). For a confirmed split of a displayed message whose category a
  group may carry, with a fresh identifier and the selected group and the message both in
  the database: a group is appended whose title is the capitalised category, a colon and
  the first 50 characters of the summary, whose summary and category are those of the
  message, with status open and the defaults medium and backlog; the link of the message
  to the selected group is removed and a link to the new group with score 1 is added, so
  the new group has exactly this member; no message row changes, and the selected group
  keeps its row.
\<close>

theorem split_creates_singleton:
  assumes "confirmed"
    and "find (\<lambda>m. m_id m = messageId) groupMessages = Some message"
    and "category_check (m_category message)"
    and "env_uuid env \<notin> set (map g_id (issue_groups d))"
    and "g_id selectedGroup \<in> set (map g_id (issue_groups d))"
    and "messageId \<in> set (map m_id (messages d))"
    and "fk_ok d"
  shows "(let res = handleSplitMessage env d selectedGroup groupMessages confirmed messageId;
              newGroup = \<lparr>g_id = env_uuid env,
                 g_title = capitalize (m_category message) @ '': '' @ take 50 (m_summary message),
                 g_summary = m_summary message, g_category = m_category message,
                 g_priority = ''medium'', g_status = ''open'', g_workflow_status = ''backlog'',
                 g_created_at = env_now env, g_updated_at = env_now env\<rparr>
          in fst res = Done \<and>
             messages (snd res) = messages d \<and>
             issue_groups (snd res) = issue_groups d @ [newGroup] \<and>
             message_groups (snd res) =
               filter (\<lambda>r. \<not> (mg_message_id r = messageId \<and> mg_group_id r = g_id selectedGroup))
                 (message_groups d) @
               [\<lparr>mg_message_id = messageId, mg_group_id = env_uuid env, mg_similarity_score = 1,
                 mg_created_at = env_now env\<rparr>] \<and>
             members (snd res) (env_uuid env) = [messageId] \<and>
             messageId \<notin> set (members (snd res) (g_id selectedGroup)) \<and>
             g_id selectedGroup \<in> set (map g_id (issue_groups (snd res))))"
proof -
  let ?new = "\<lparr>g_id = env_uuid env,
                 g_title = capitalize (m_category message) @ '': '' @ take 50 (m_summary message),
                 g_summary = m_summary message, g_category = m_category message,
                 g_priority = ''medium'', g_status = ''open'', g_workflow_status = ''backlog'',
                 g_created_at = env_now env, g_updated_at = env_now env\<rparr>"
  have ins: "insert_issue_groups env d (split_values message)
      = (Inr [?new], d\<lparr>issue_groups := issue_groups d @ [?new]\<rparr>)"
    using assms(3,4)
    by (simp add: insert_issue_groups_def split_values_def issue_group_checks_def
          priority_check_def status_check_def workflow_status_check_def Let_def)
  have none: "filter (\<lambda>r. mg_group_id r = env_uuid env) (message_groups d) = []"
    by (rule members_fresh [OF assms(7,4)])
  then have absent: "(messageId, env_uuid env) \<notin>
      set (map (\<lambda>r. (mg_message_id r, mg_group_id r))
        (filter (\<lambda>r. \<not> (mg_message_id r = messageId \<and> mg_group_id r = g_id selectedGroup))
           (message_groups d)))"
    by (auto simp: filter_empty_conv)
  have neq: "g_id selectedGroup \<noteq> env_uuid env"
    using assms(4,5) by auto
  have res: "handleSplitMessage env d selectedGroup groupMessages confirmed messageId
      = (Done, d\<lparr>issue_groups := issue_groups d @ [?new],
                 message_groups :=
                   filter (\<lambda>r. \<not> (mg_message_id r = messageId \<and> mg_group_id r = g_id selectedGroup))
                     (message_groups d) @
                   [\<lparr>mg_message_id = messageId, mg_group_id = env_uuid env, mg_similarity_score = 1,
                     mg_created_at = env_now env\<rparr>]\<rparr>)"
    using assms(1,2,6) absent
    by (simp add: handleSplitMessage_def ins insert_message_groups_def delete_message_groups_def)
  have new_members: "filter (\<lambda>r. mg_group_id r = env_uuid env)
      (filter (\<lambda>r. \<not> (mg_message_id r = messageId \<and> mg_group_id r = g_id selectedGroup))
         (message_groups d)) = []"
    using none by (auto simp: filter_empty_conv)
  show ?thesis
    unfolding res Let_def fst_conv snd_conv
    using neq assms(5) new_members by (auto simp: members_def)
qed

text \<open>
  C3, an instance: m2 split out of g1 ends alone in the new group g9.
\<close>

theorem split_creates_singleton_witness:
  "fk_ok example_db \<and> category_check ''bug'' \<and>
   members (snd (handleSplitMessage example_env example_db (example_group ''g1'' ''bug'' ''open'' 10)
      (fetchGroupMessages example_db ''g1'') True ''m2'')) ''g9'' = [''m2''] \<and>
   map g_id (issue_groups (snd (handleSplitMessage example_env example_db
      (example_group ''g1'' ''bug'' ''open'' 10)
      (fetchGroupMessages example_db ''g1'') True ''m2''))) = [''g1'', ''g2'', ''g9'']"
proof -
  let ?g1 = "example_group ''g1'' ''bug'' ''open'' 10"
  let ?m2 = "message_row.extend (example_message ''m2'' ''bug'' ''dashboard fails to load'')
               \<lparr>similarity_score = None\<rparr>"
  have h2: "find (\<lambda>m. m_id m = ''m2'') (fetchGroupMessages example_db ''g1'') = Some ?m2"
    by (simp add: fetchGroupMessages_def example_defs List.map_filter_def message_row.extend_def)
  have h3: "category_check (m_category ?m2)"
    by (simp add: category_check_def example_defs message_row.extend_def)
  have h4: "env_uuid example_env \<notin> set (map g_id (issue_groups example_db))"
    by (simp add: example_defs)
  have h5: "g_id ?g1 \<in> set (map g_id (issue_groups example_db))"
    by (simp add: example_defs)
  have h6: "''m2'' \<in> set (map m_id (messages example_db))"
    by (simp add: example_defs)
  have h7: "fk_ok example_db"
    by (simp add: fk_ok_def example_defs)
  have u: "env_uuid example_env = ''g9''"
    by (simp add: example_defs)
  have ids: "map g_id (issue_groups example_db) = [''g1'', ''g2'']"
    by (simp add: example_defs)
  show ?thesis
    using h7 ids split_creates_singleton [OF TrueI h2 h3 h4 h5 h6 h7]
    unfolding u by (simp add: Let_def category_check_def)
qed

text \<open>
  C3 as stated fails on a group with one message: the Split button is not offered for
  it, and the handler, run on it all the same, leaves g2 in the table with no member.
\<close>

theorem split_keeps_empty_group_counterexample:
  "\<not> split_offered (fetchGroupMessages example_db ''g2'') \<and>
   map g_id (issue_groups (snd (handleSplitMessage example_env example_db
      (example_group ''g2'' ''bug'' ''open'' 20)
      (fetchGroupMessages example_db ''g2'') True ''m3''))) = [''g1'', ''g2'', ''g9''] \<and>
   members (snd (handleSplitMessage example_env example_db (example_group ''g2'' ''bug'' ''open'' 20)
      (fetchGroupMessages example_db ''g2'') True ''m3'')) ''g2'' = []"
  by (simp add: handleSplitMessage_def split_offered_def split_values_def fetchGroupMessages_def
       example_defs pg_defs List.map_filter_def message_row.extend_def members_def Let_def
       issue_group_checks_def category_check_def priority_check_def status_check_def
       workflow_status_check_def capitalize_def upper_char_def)

section \<open>Field edits\<close>

lemma list_all2_same: "list_all2 P xs xs \<longleftrightarrow> (\<forall>x \<in> set xs. P x x)"
  by (induction xs) auto

lemma update_single_field:
  "single_field_edit c v gid (env_now env) d
     (case update_issue_groups env d [(c, v)] gid of
        (Inl error, d1) \<Rightarrow> (Failed, d1) | (Inr _, d1) \<Rightarrow> (Done, d1))"
  by (auto simp: single_field_edit_def update_issue_groups_def list_all2_map2 list_all2_same)

lemma touch_single:
  "touch env [(c, v)] g = (set_column c v g)\<lparr>g_updated_at := env_now env\<rparr>"
  by (simp add: touch_def)

lemma checks_touch:
  "issue_group_checks g \<Longrightarrow> issue_group_checks (touch env [(c, v)] g) \<longleftrightarrow> value_ok c v"
  by (cases c) (simp_all add: issue_group_checks_def touch_def)

lemma checks_touch_refused:
  "\<not> value_ok c v \<Longrightarrow> \<not> issue_group_checks (touch env [(c, v)] g)"
  by (cases c) (simp_all add: issue_group_checks_def touch_def)

lemma update_accepted:
  assumes "checks_ok d" and "value_ok c v"
  shows "update_issue_groups env d [(c, v)] gid =
           (Inr [], d\<lparr>issue_groups :=
              map (\<lambda>g. if g_id g = gid then (set_column c v g)\<lparr>g_updated_at := env_now env\<rparr> else g)
                (issue_groups d)\<rparr>)"
proof -
  have "list_all (\<lambda>g. issue_group_checks (touch env [(c, v)] g))
          (filter (\<lambda>g. g_id g = gid) (issue_groups d))"
    using assms by (auto simp: checks_ok_def list_all_iff checks_touch)
  then show ?thesis
    by (simp add: update_issue_groups_def touch_single)
qed

lemma update_refused:
  assumes "\<not> value_ok c v" and "gid \<in> set (map g_id (issue_groups d))"
  shows "update_issue_groups env d [(c, v)] gid = (Inl Check_violation, d)"
proof -
  from assms(2) obtain g where "g \<in> set (issue_groups d)" "g_id g = gid"
    by auto
  then have "\<not> list_all (\<lambda>g. issue_group_checks (touch env [(c, v)] g))
      (filter (\<lambda>g. g_id g = gid) (issue_groups d))"
    using checks_touch_refused [OF assms(1)] by (auto simp: list_all_iff)
  then show ?thesis
    by (simp add: update_issue_groups_def)
qed

lemma update_no_row:
  assumes "gid \<notin> set (map g_id (issue_groups d))"
  shows "update_issue_groups env d vs gid = (Inr [], d)"
proof -
  have "filter (\<lambda>g. g_id g = gid) (issue_groups d) = []"
    using assms by (auto simp: filter_empty_conv)
  moreover have "map (\<lambda>g. if g_id g = gid then touch env vs g else g) (issue_groups d) = issue_groups d"
    using assms by (intro map_idI) auto
  ultimately show ?thesis
    by (simp add: update_issue_groups_def)
qed

lemma column_name_schema:
  "column_name c \<in> set issue_groups_columns \<and> column_name c \<noteq> ''assignee''"
  by (cases c) (simp_all add: issue_groups_columns_def)

text \<open>
  C8 (as the handlers run). The four edits of a group (title, priority, workflow status,
  legacy status) are single-field edits in the sense of \<open>single_field_edit\<close>: nothing but
  the edited group changes, and on it nothing but the edited column and the last-update
  time. When the stored rows satisfy the CHECK constraints, a title that is neither blank
  nor the current one, a priority and a workflow status the constraints admit, and the
  reopening of a group each end in \<open>Done\<close> with the new value in the edited column and the
  time of the update as last-update time; a title that is blank after trimming or equal to
  the current one writes nothing. No request can name an assignee: \<open>issue_groups\<close> has no
  such column.
\<close>

theorem field_edits_touch_one_field:
  "single_field_edit Title (trim editedTitle) (g_id selectedGroup) (env_now env) d
     (handleSaveTitle env d selectedGroup editedTitle) \<and>
   single_field_edit Priority newPriority (g_id selectedGroup) (env_now env) d
     (handleUpdatePriority env d selectedGroup newPriority) \<and>
   single_field_edit Workflow_status newStatus (g_id selectedGroup) (env_now env) d
     (handleUpdateWorkflowStatus env d selectedGroup newStatus) \<and>
   single_field_edit Status (if currentStatus = ''open'' then ''resolved'' else ''open'') groupId
     (env_now env) d (toggleGroupStatus env d groupId currentStatus) \<and>
   (checks_ok d \<and> trim editedTitle \<noteq> [] \<and> editedTitle \<noteq> g_title selectedGroup \<longrightarrow>
      handleSaveTitle env d selectedGroup editedTitle =
        (Done, d\<lparr>issue_groups :=
           map (\<lambda>g. if g_id g = g_id selectedGroup
                     then g\<lparr>g_title := trim editedTitle, g_updated_at := env_now env\<rparr> else g)
             (issue_groups d)\<rparr>)) \<and>
   (trim editedTitle = [] \<or> editedTitle = g_title selectedGroup \<longrightarrow>
      handleSaveTitle env d selectedGroup editedTitle = (Returned, d)) \<and>
   (checks_ok d \<and> priority_check newPriority \<longrightarrow>
      handleUpdatePriority env d selectedGroup newPriority =
        (Done, d\<lparr>issue_groups :=
           map (\<lambda>g. if g_id g = g_id selectedGroup
                     then g\<lparr>g_priority := newPriority, g_updated_at := env_now env\<rparr> else g)
             (issue_groups d)\<rparr>)) \<and>
   (checks_ok d \<and> workflow_status_check newStatus \<longrightarrow>
      handleUpdateWorkflowStatus env d selectedGroup newStatus =
        (Done, d\<lparr>issue_groups :=
           map (\<lambda>g. if g_id g = g_id selectedGroup
                     then g\<lparr>g_workflow_status := newStatus, g_updated_at := env_now env\<rparr> else g)
             (issue_groups d)\<rparr>)) \<and>
   (checks_ok d \<and> currentStatus \<noteq> ''open'' \<longrightarrow>
      toggleGroupStatus env d groupId currentStatus =
        (Done, d\<lparr>issue_groups :=
           map (\<lambda>g. if g_id g = groupId
                     then g\<lparr>g_status := ''open'', g_updated_at := env_now env\<rparr> else g)
             (issue_groups d)\<rparr>)) \<and>
   column_name c \<in> set issue_groups_columns \<and> column_name c \<noteq> ''assignee'' \<and>
   ''assignee'' \<notin> set issue_groups_columns"
proof -
  have idle: "single_field_edit c v gid now d (Returned, d)" for c v gid now
    by (simp add: single_field_edit_def list_all2_same)
  have f1: "single_field_edit Title (trim editedTitle) (g_id selectedGroup) (env_now env) d
     (handleSaveTitle env d selectedGroup editedTitle)"
    using update_single_field [of Title "trim editedTitle" "g_id selectedGroup" env d] idle
    by (simp add: handleSaveTitle_def)
  have f2: "single_field_edit Priority newPriority (g_id selectedGroup) (env_now env) d
     (handleUpdatePriority env d selectedGroup newPriority)"
    using update_single_field [of Priority newPriority "g_id selectedGroup" env d]
    by (simp add: handleUpdatePriority_def)
  have f3: "single_field_edit Workflow_status newStatus (g_id selectedGroup) (env_now env) d
     (handleUpdateWorkflowStatus env d selectedGroup newStatus)"
    using update_single_field [of Workflow_status newStatus "g_id selectedGroup" env d]
    by (simp add: handleUpdateWorkflowStatus_def)
  have f4: "single_field_edit Status (if currentStatus = ''open'' then ''resolved'' else ''open'') groupId
     (env_now env) d (toggleGroupStatus env d groupId currentStatus)"
    using update_single_field [of Status "if currentStatus = ''open'' then ''resolved'' else ''open''"
        groupId env d]
    by (simp add: toggleGroupStatus_def toggle_request_def)
  have e1: "handleSaveTitle env d selectedGroup editedTitle =
        (Done, d\<lparr>issue_groups :=
           map (\<lambda>g. if g_id g = g_id selectedGroup
                     then g\<lparr>g_title := trim editedTitle, g_updated_at := env_now env\<rparr> else g)
             (issue_groups d)\<rparr>)"
    if "checks_ok d \<and> trim editedTitle \<noteq> [] \<and> editedTitle \<noteq> g_title selectedGroup"
    using that update_accepted [of d Title "trim editedTitle" env "g_id selectedGroup"]
    by (simp add: handleSaveTitle_def)
  have e1': "handleSaveTitle env d selectedGroup editedTitle = (Returned, d)"
    if "trim editedTitle = [] \<or> editedTitle = g_title selectedGroup"
    using that by (auto simp: handleSaveTitle_def)
  have e2: "handleUpdatePriority env d selectedGroup newPriority =
        (Done, d\<lparr>issue_groups :=
           map (\<lambda>g. if g_id g = g_id selectedGroup
                     then g\<lparr>g_priority := newPriority, g_updated_at := env_now env\<rparr> else g)
             (issue_groups d)\<rparr>)"
    if "checks_ok d \<and> priority_check newPriority"
    using that update_accepted [of d Priority newPriority env "g_id selectedGroup"]
    by (simp add: handleUpdatePriority_def)
  have e3: "handleUpdateWorkflowStatus env d selectedGroup newStatus =
        (Done, d\<lparr>issue_groups :=
           map (\<lambda>g. if g_id g = g_id selectedGroup
                     then g\<lparr>g_workflow_status := newStatus, g_updated_at := env_now env\<rparr> else g)
             (issue_groups d)\<rparr>)"
    if "checks_ok d \<and> workflow_status_check newStatus"
    using that update_accepted [of d Workflow_status newStatus env "g_id selectedGroup"]
    by (simp add: handleUpdateWorkflowStatus_def)
  have e4: "toggleGroupStatus env d groupId currentStatus =
        (Done, d\<lparr>issue_groups :=
           map (\<lambda>g. if g_id g = groupId
                     then g\<lparr>g_status := ''open'', g_updated_at := env_now env\<rparr> else g)
             (issue_groups d)\<rparr>)"
    if "checks_ok d \<and> currentStatus \<noteq> ''open''"
    using that update_accepted [of d Status "''open''" env groupId]
    by (simp add: toggleGroupStatus_def toggle_request_def status_check_def)
  have cols: "column_name c \<in> set issue_groups_columns \<and> column_name c \<noteq> ''assignee''"
    by (rule column_name_schema)
  have none: "''assignee'' \<notin> set issue_groups_columns"
    by (simp add: issue_groups_columns_def)
  show ?thesis
    using f1 f2 f3 f4 e1 e1' e2 e3 e4 cols none by blast
qed

text \<open>
  C8, an instance: a new title, a new priority and a new workflow status for g1 and the
  reopening of g2 are each stored with the update time 100 and leave the other group
  untouched; saving the title the group already has writes nothing.
\<close>

theorem field_edits_touch_one_field_witness:
  "checks_ok example_db \<and>
   handleSaveTitle example_env example_db (example_group ''g1'' ''bug'' ''open'' 10) '' Login fails ''
     = (Done, example_db\<lparr>issue_groups :=
          [(example_group ''g1'' ''bug'' ''open'' 10)\<lparr>g_title := ''Login fails'', g_updated_at := 100\<rparr>,
           example_group ''g2'' ''bug'' ''open'' 20]\<rparr>) \<and>
   handleSaveTitle example_env example_db (example_group ''g1'' ''bug'' ''open'' 10)
       ''Bug: error 500 on dashboard''
     = (Returned, example_db) \<and>
   handleUpdatePriority example_env example_db (example_group ''g1'' ''bug'' ''open'' 10) ''high''
     = (Done, example_db\<lparr>issue_groups :=
          [(example_group ''g1'' ''bug'' ''open'' 10)\<lparr>g_priority := ''high'', g_updated_at := 100\<rparr>,
           example_group ''g2'' ''bug'' ''open'' 20]\<rparr>) \<and>
   handleUpdateWorkflowStatus example_env example_db (example_group ''g1'' ''bug'' ''open'' 10) ''todo''
     = (Done, example_db\<lparr>issue_groups :=
          [(example_group ''g1'' ''bug'' ''open'' 10)\<lparr>g_workflow_status := ''todo'', g_updated_at := 100\<rparr>,
           example_group ''g2'' ''bug'' ''open'' 20]\<rparr>) \<and>
   toggleGroupStatus example_env example_db ''g2'' ''resolved''
     = (Done, example_db\<lparr>issue_groups :=
          [example_group ''g1'' ''bug'' ''open'' 10,
           (example_group ''g2'' ''bug'' ''open'' 20)\<lparr>g_updated_at := 100\<rparr>]\<rparr>)"
proof -
  let ?g1 = "example_group ''g1'' ''bug'' ''open'' 10"
  have h: "checks_ok example_db"
    by (simp add: checks_ok_def issue_group_checks_def category_check_def priority_check_def
          status_check_def workflow_status_check_def example_defs)
  have t: "trim '' Login fails '' = ''Login fails''"
    by (simp add: trim_def is_js_space_def)
  have p: "priority_check ''high''" and w: "workflow_status_check ''todo''"
    by (simp_all add: priority_check_def workflow_status_check_def)
  have g: "g_id ?g1 = ''g1''" "g_title ?g1 = ''Bug: error 500 on dashboard''"
    by (simp_all add: example_defs)
  show ?thesis
    using h p w
      field_edits_touch_one_field [of "'' Login fails ''" ?g1 example_env example_db
        "''high''" "''todo''" "''resolved''" "''g2''" Title]
      field_edits_touch_one_field [of "''Bug: error 500 on dashboard''" ?g1 example_env example_db
        "''high''" "''todo''" "''resolved''" "''g2''" Title]
    unfolding t g by (simp add: example_defs trim_def is_js_space_def)
qed

text \<open>
  C8 as stated fails: a title edited to blanks is dropped by the handler, and the edit of
  the status of the open group g1 is refused by the CHECK constraint; neither refreshes
  the last-update times 10 and 20. The table has no assignee column to edit.
\<close>

theorem blank_title_not_refreshed_counterexample:
  "handleSaveTitle example_env example_db (example_group ''g1'' ''bug'' ''open'' 10) ''   ''
     = (Returned, example_db) \<and>
   toggleGroupStatus example_env example_db ''g1'' ''open'' = (Failed, example_db) \<and>
   map g_updated_at (issue_groups example_db) = [10, 20] \<and>
   env_now example_env = 100 \<and>
   ''assignee'' \<notin> set issue_groups_columns"
  by (simp add: handleSaveTitle_def trim_def is_js_space_def toggleGroupStatus_def
        toggle_request_def update_issue_groups_def touch_def issue_group_checks_def
        status_check_def example_defs issue_groups_columns_def)

lemma status_check_iff: "status_check v \<longleftrightarrow> v = ''open'' \<or> v = ''closed''"
  by (simp add: status_check_def)

text \<open>
  C9. \<open>toggleGroupStatus\<close> is the outcome of one update of the column \<open>status\<close> alone, to
  \<open>resolved\<close> when the current status is \<open>open\<close> and to \<open>open\<close> otherwise. The check
  constraint of the base schema admits \<open>open\<close> and \<open>closed\<close> only: the update to
  \<open>resolved\<close> of an existing group is refused with a check violation and changes
  nothing; for any other current status the group's status becomes \<open>open\<close>, its
  last-update time the time of the update, and nothing else changes; for a group that
  does not exist the update matches no row.
\<close>

theorem toggle_sets_legacy_status:
  "toggle_request groupId currentStatus =
     Update_issue_groups [(Status, if currentStatus = ''open'' then ''resolved'' else ''open'')] groupId \<and>
   toggleGroupStatus env d groupId currentStatus =
     (case exec env d
        (Update_issue_groups [(Status, if currentStatus = ''open'' then ''resolved'' else ''open'')] groupId) of
        (Inl e, d1) \<Rightarrow> (Failed, d1) | (Inr r, d1) \<Rightarrow> (Done, d1)) \<and>
   (status_check v \<longleftrightarrow> v = ''open'' \<or> v = ''closed'') \<and>
   (groupId \<in> set (map g_id (issue_groups d)) \<longrightarrow>
      exec env d (toggle_request groupId ''open'') = (Inl Check_violation, d) \<and>
      toggleGroupStatus env d groupId ''open'' = (Failed, d)) \<and>
   (checks_ok d \<and> currentStatus \<noteq> ''open'' \<longrightarrow>
      toggleGroupStatus env d groupId currentStatus =
        (Done, d\<lparr>issue_groups :=
           map (\<lambda>g. if g_id g = groupId
                     then g\<lparr>g_status := ''open'', g_updated_at := env_now env\<rparr> else g)
             (issue_groups d)\<rparr>)) \<and>
   (groupId \<notin> set (map g_id (issue_groups d)) \<longrightarrow>
      toggleGroupStatus env d groupId currentStatus = (Done, d))"
proof -
  have req: "toggle_request groupId s =
      Update_issue_groups [(Status, if s = ''open'' then ''resolved'' else ''open'')] groupId" for s
    by (simp add: toggle_request_def)
  have run: "toggleGroupStatus env d groupId currentStatus =
     (case exec env d
        (Update_issue_groups [(Status, if currentStatus = ''open'' then ''resolved'' else ''open'')] groupId) of
        (Inl e, d1) \<Rightarrow> (Failed, d1) | (Inr r, d1) \<Rightarrow> (Done, d1))"
    by (simp add: toggleGroupStatus_def req)
  have refused: "exec env d (toggle_request groupId ''open'') = (Inl Check_violation, d) \<and>
      toggleGroupStatus env d groupId ''open'' = (Failed, d)"
    if "groupId \<in> set (map g_id (issue_groups d))"
    using update_refused [of Status "''resolved''" groupId d env] that
    by (simp add: toggleGroupStatus_def req status_check_def)
  have reopened: "toggleGroupStatus env d groupId currentStatus =
        (Done, d\<lparr>issue_groups :=
           map (\<lambda>g. if g_id g = groupId
                     then g\<lparr>g_status := ''open'', g_updated_at := env_now env\<rparr> else g)
             (issue_groups d)\<rparr>)"
    if "checks_ok d \<and> currentStatus \<noteq> ''open''"
    using that update_accepted [of d Status "''open''" env groupId]
    by (simp add: toggleGroupStatus_def req status_check_def)
  have absent: "toggleGroupStatus env d groupId currentStatus = (Done, d)"
    if "groupId \<notin> set (map g_id (issue_groups d))"
    using update_no_row [OF that, of env] by (simp add: toggleGroupStatus_def req)
  show ?thesis
    using req [of currentStatus] run status_check_iff [of v] refused reopened absent by blast
qed

text \<open>
  C9, an instance: the toggle of the closed group g2 reopens it at time 100.
\<close>

theorem toggle_sets_legacy_status_witness:
  "''g1'' \<in> set (map g_id (issue_groups example_db)) \<and>
   toggle_request ''g1'' ''open'' = Update_issue_groups [(Status, ''resolved'')] ''g1'' \<and>
   \<not> status_check ''resolved'' \<and>
   exec example_env example_db (toggle_request ''g1'' ''open'') = (Inl Check_violation, example_db) \<and>
   toggleGroupStatus example_env example_db ''g1'' ''open'' = (Failed, example_db) \<and>
   checks_ok example_db_closed \<and>
   toggle_request ''g2'' ''closed'' = Update_issue_groups [(Status, ''open'')] ''g2'' \<and>
   toggleGroupStatus example_env example_db_closed ''g2'' ''closed''
     = (Done, example_db_closed\<lparr>issue_groups :=
          [example_group ''g1'' ''bug'' ''open'' 10,
           (example_group ''g2'' ''bug'' ''closed'' 20)\<lparr>g_status := ''open'', g_updated_at := 100\<rparr>]\<rparr>) \<and>
   ''g5'' \<notin> set (map g_id (issue_groups example_db)) \<and>
   toggleGroupStatus example_env example_db ''g5'' ''open'' = (Done, example_db)"
  using toggle_sets_legacy_status [of "''g2''" "''closed''" example_env example_db_closed "''resolved''"]
  by (simp add: toggleGroupStatus_def toggle_request_def update_issue_groups_def touch_def
        checks_ok_def issue_group_checks_def category_check_def priority_check_def
        status_check_def workflow_status_check_def example_defs)

section \<open>Properties of the filters\<close>

lemma all_dropWhile_iff: "(\<forall>x \<in> set (dropWhile P s). P x) \<longleftrightarrow> (\<forall>x \<in> set s. P x)"
  by (induction s) auto

lemma trim_empty_iff: "trim s = [] \<longleftrightarrow> (\<forall>c \<in> set s. is_js_space c)"
  by (simp add: trim_def dropWhile_eq_Nil_conv all_dropWhile_iff)

text \<open>
  C10. With the category filter and the time filter both at \<open>all\<close> and a search query
  that is empty or consists of white space only, \<open>filterIssueGroups\<close> returns its input
  list unchanged: the same groups in the same order.
\<close>

theorem filterIssueGroups_all_pass:
  assumes "\<forall>c \<in> set searchQuery. is_js_space c"
  shows "filterIssueGroups now groups ''all'' ''all'' searchQuery = groups"
  using assms
  by (simp add: filterIssueGroups_def search_pass_def time_pass_def category_pass_def
        getTimeFilterDate_def trim_empty_iff)

theorem filterIssueGroups_all_pass_witness:
  "list_all is_js_space ''  '' \<and>
   filterIssueGroups 1000 [example_group ''g1'' ''bug'' ''open'' 10, example_group ''g2'' ''support'' ''resolved'' 20]
     ''all'' ''all'' ''  ''
   = [example_group ''g1'' ''bug'' ''open'' 10, example_group ''g2'' ''support'' ''resolved'' 20]"
proof -
  have h: "\<forall>c \<in> set ''  ''. is_js_space c"
    by (simp add: is_js_space_def)
  show ?thesis
    using h filterIssueGroups_all_pass [OF h] by (simp add: list_all_iff)
qed

section \<open>Assignment of a new message\<close>

text \<open>
  C6. For a message without a thread match whose best neighbour has similarity below the
  threshold, a new group is allocated and the message becomes its member; at or above the
  threshold no group is allocated and the message joins the neighbour's group with the
  observed similarity as its score.
\<close>

theorem similarity_gate:
  assumes "thread_match e m = None"
  shows "(n_similarity best < threshold cfg \<longrightarrow>
            decide cfg e m (best # rest) = New_group \<and>
            clusters (assign cfg fresh e m (best # rest)) = clusters e @ [new_cluster cfg fresh m] \<and>
            memberships (assign cfg fresh e m (best # rest)) =
              memberships e @ [\<lparr>ms_message = in_id m, ms_group = fresh, ms_score = 1\<rparr>]) \<and>
         (n_similarity best \<ge> threshold cfg \<longrightarrow>
            decide cfg e m (best # rest) = Nearest_neighbor (n_group_id best) (n_similarity best) \<and>
            clusters (assign cfg fresh e m (best # rest)) = clusters e \<and>
            memberships (assign cfg fresh e m (best # rest)) =
              memberships e @
              [\<lparr>ms_message = in_id m, ms_group = n_group_id best, ms_score = n_similarity best\<rparr>])"
  using assms by (simp add: decide_def assign_def)

text \<open>
  C6, an instance with the default threshold 0.60: similarity 0.55 against g1 opens the
  new group g9, similarity 0.62 joins g1 with score 0.62.
\<close>

theorem similarity_gate_witness:
  "default_threshold = 6 / 10 \<and>
   thread_match example_engine (example_incoming ''m2'' None ''dashboard error 500'') = None \<and>
   map ms_group (memberships (assign example_config ''g9'' example_engine
       (example_incoming ''m2'' None ''dashboard error 500'')
       [\<lparr>n_message_id = ''m1'', n_group_id = ''g1'', n_similarity = 55 / 100\<rparr>])) = [''g1'', ''g9''] \<and>
   memberships (assign example_config ''g9'' example_engine
       (example_incoming ''m2'' None ''dashboard error 500'')
       [\<lparr>n_message_id = ''m1'', n_group_id = ''g1'', n_similarity = 62 / 100\<rparr>])
     = [\<lparr>ms_message = ''m1'', ms_group = ''g1'', ms_score = 1\<rparr>,
        \<lparr>ms_message = ''m2'', ms_group = ''g1'', ms_score = 62 / 100\<rparr>]"
proof -
  let ?m = "example_incoming ''m2'' None ''dashboard error 500''"
  have h: "thread_match example_engine ?m = None"
    by (simp add: thread_match_def example_incoming_def)
  have t: "threshold example_config = 6 / 10"
    by (simp add: example_config_def default_threshold_def)
  show ?thesis
    using h t
      similarity_gate [OF h, of "\<lparr>n_message_id = ''m1'', n_group_id = ''g1'', n_similarity = 55 / 100\<rparr>"
        example_config "[]" "''g9''"]
      similarity_gate [OF h, of "\<lparr>n_message_id = ''m1'', n_group_id = ''g1'', n_similarity = 62 / 100\<rparr>"
        example_config "[]" "''g9''"]
    by (simp add: default_threshold_def example_engine_def example_incoming_def)
qed

lemma thread_affinity_wins:
  assumes "in_thread_id m = Some t" and "thread_index e t = Some g"
    and "g \<in> set (map c_id (clusters e))"
  shows "decide cfg e m ns = Thread_affinity g"
  using assms by (simp add: decide_def thread_match_def)

lemma assign_thread:
  assumes "decide cfg e m ns = Thread_affinity g"
  shows "assign cfg fresh e m ns =
           e\<lparr>memberships := memberships e @ [\<lparr>ms_message = in_id m, ms_group = g, ms_score = 1\<rparr>]\<rparr>"
  using assms by (simp add: assign_def)

lemma assign_new:
  assumes "decide cfg e m ns = New_group" and "in_thread_id m = Some t"
  shows "assign cfg fresh e m ns =
           e\<lparr>clusters := clusters e @ [new_cluster cfg fresh m],
             memberships := memberships e @ [\<lparr>ms_message = in_id m, ms_group = fresh, ms_score = 1\<rparr>],
             thread_index := (thread_index e)(t \<mapsto> fresh)\<rparr>"
  using assms by (simp add: assign_def)

text \<open>
  C7. A message of thread \<open>t\<close> is assigned with score 1 to the group the thread index
  holds for \<open>t\<close>, whatever neighbours the Embedding Store returns; in particular, when
  an earlier message of the same thread opened a group, that group was registered for
  the thread and the later message joins it.
\<close>

theorem thread_stickiness:
  assumes "in_thread_id m2 = Some t"
  shows "(thread_index e t = Some g \<and> g \<in> set (map c_id (clusters e)) \<longrightarrow>
            decide cfg e m2 ns2 = Thread_affinity g \<and>
            clusters (assign cfg fresh2 e m2 ns2) = clusters e \<and>
            memberships (assign cfg fresh2 e m2 ns2) =
              memberships e @ [\<lparr>ms_message = in_id m2, ms_group = g, ms_score = 1\<rparr>]) \<and>
         (in_thread_id m1 = Some t \<and> decide cfg e m1 ns1 = New_group \<longrightarrow>
            (let e1 = assign cfg fresh1 e m1 ns1
             in thread_index e1 t = Some fresh1 \<and>
                decide cfg e1 m2 ns2 = Thread_affinity fresh1 \<and>
                clusters (assign cfg fresh2 e1 m2 ns2) = clusters e1 \<and>
                memberships (assign cfg fresh2 e1 m2 ns2) =
                  memberships e1 @ [\<lparr>ms_message = in_id m2, ms_group = fresh1, ms_score = 1\<rparr>]))"
proof (intro conjI impI)
  assume reg: "thread_index e t = Some g \<and> g \<in> set (map c_id (clusters e))"
  then have d: "decide cfg e m2 ns2 = Thread_affinity g"
    using assms thread_affinity_wins by blast
  show "decide cfg e m2 ns2 = Thread_affinity g"
    by (rule d)
  show "clusters (assign cfg fresh2 e m2 ns2) = clusters e"
    by (simp add: assign_thread [OF d])
  show "memberships (assign cfg fresh2 e m2 ns2) =
      memberships e @ [\<lparr>ms_message = in_id m2, ms_group = g, ms_score = 1\<rparr>]"
    by (simp add: assign_thread [OF d])
next
  assume first: "in_thread_id m1 = Some t \<and> decide cfg e m1 ns1 = New_group"
  define e1 where "e1 = assign cfg fresh1 e m1 ns1"
  have e1: "e1 = e\<lparr>clusters := clusters e @ [new_cluster cfg fresh1 m1],
             memberships := memberships e @ [\<lparr>ms_message = in_id m1, ms_group = fresh1, ms_score = 1\<rparr>],
             thread_index := (thread_index e)(t \<mapsto> fresh1)\<rparr>"
    unfolding e1_def using first assign_new by blast
  have idx: "thread_index e1 t = Some fresh1"
    by (simp add: e1)
  have ex: "fresh1 \<in> set (map c_id (clusters e1))"
    by (simp add: e1 new_cluster_def)
  have d: "decide cfg e1 m2 ns2 = Thread_affinity fresh1"
    by (rule thread_affinity_wins [OF assms idx ex])
  have "thread_index e1 t = Some fresh1 \<and>
        decide cfg e1 m2 ns2 = Thread_affinity fresh1 \<and>
        clusters (assign cfg fresh2 e1 m2 ns2) = clusters e1 \<and>
        memberships (assign cfg fresh2 e1 m2 ns2) =
          memberships e1 @ [\<lparr>ms_message = in_id m2, ms_group = fresh1, ms_score = 1\<rparr>]"
    using idx d by (simp add: assign_thread [OF d])
  then show "let e1 = assign cfg fresh1 e m1 ns1
     in thread_index e1 t = Some fresh1 \<and>
        decide cfg e1 m2 ns2 = Thread_affinity fresh1 \<and>
        clusters (assign cfg fresh2 e1 m2 ns2) = clusters e1 \<and>
        memberships (assign cfg fresh2 e1 m2 ns2) =
          memberships e1 @ [\<lparr>ms_message = in_id m2, ms_group = fresh1, ms_score = 1\<rparr>]"
    unfolding e1_def Let_def .
qed

text \<open>
  C7, an instance: m2 opens g9 for thread t1; the reply m3 has a neighbour in g1 with
  similarity 0.99 and still joins g9 with score 1.
\<close>

theorem thread_stickiness_witness:
  "in_thread_id (example_incoming ''m3'' (Some ''t1'') ''actually nevermind, found it'') = Some ''t1'' \<and>
   decide example_config example_engine (example_incoming ''m2'' (Some ''t1'') ''export to csv fails'') []
     = New_group \<and>
   memberships (assign example_config ''g8''
       (assign example_config ''g9'' example_engine
          (example_incoming ''m2'' (Some ''t1'') ''export to csv fails'') [])
       (example_incoming ''m3'' (Some ''t1'') ''actually nevermind, found it'')
       [\<lparr>n_message_id = ''m1'', n_group_id = ''g1'', n_similarity = 99 / 100\<rparr>])
     = [\<lparr>ms_message = ''m1'', ms_group = ''g1'', ms_score = 1\<rparr>,
        \<lparr>ms_message = ''m2'', ms_group = ''g9'', ms_score = 1\<rparr>,
        \<lparr>ms_message = ''m3'', ms_group = ''g9'', ms_score = 1\<rparr>]"
proof -
  let ?m2 = "example_incoming ''m2'' (Some ''t1'') ''export to csv fails''"
  let ?m3 = "example_incoming ''m3'' (Some ''t1'') ''actually nevermind, found it''"
  have h: "in_thread_id ?m3 = Some ''t1''"
    by (simp add: example_incoming_def)
  have h1: "in_thread_id ?m2 = Some ''t1''"
    by (simp add: example_incoming_def)
  have h2: "decide example_config example_engine ?m2 [] = New_group"
    by (simp add: decide_def thread_match_def example_incoming_def example_engine_def)
  have e1: "memberships (assign example_config ''g9'' example_engine ?m2 [])
      = [\<lparr>ms_message = ''m1'', ms_group = ''g1'', ms_score = 1\<rparr>,
         \<lparr>ms_message = ''m2'', ms_group = ''g9'', ms_score = 1\<rparr>]"
    unfolding assign_new [OF h2 h1] by (simp add: example_incoming_def example_engine_def)
  have "memberships (assign example_config ''g8'' (assign example_config ''g9'' example_engine ?m2 []) ?m3
          [\<lparr>n_message_id = ''m1'', n_group_id = ''g1'', n_similarity = 99 / 100\<rparr>])
        = memberships (assign example_config ''g9'' example_engine ?m2 []) @
          [\<lparr>ms_message = in_id ?m3, ms_group = ''g9'', ms_score = 1\<rparr>]"
    using h1 h2
      thread_stickiness [OF h, of example_engine "''g1''" example_config
        "[\<lparr>n_message_id = ''m1'', n_group_id = ''g1'', n_similarity = 99 / 100\<rparr>]" "''g8''" ?m2 "[]" "''g9''"]
    by (simp add: Let_def)
  then show ?thesis
    using h h2 unfolding e1 by (simp add: example_incoming_def)
qed

end
